theory Spec2Isabelle
  imports Complex_Main
begin

section \<open>float64 values\<close>

text \<open>
  Go's \<^verbatim>\<open>float64\<close> is modelled by its four kinds of value: not-a-number, the two
  infinities and the finite numbers. A finite number is carried as a real, and the two
  zeros are one value, read as positive zero. Comparison, maximum, minimum and selection
  are exact on this model. The operations \<open>fadd\<close>, \<open>fmul\<close> and \<open>fdiv\<close> give the
  exact result; \<open>round64\<close> rounds a real to the nearest float64, and \<open>fmul64\<close> is
  the rounded product, used where the program truncates a product to an index.
\<close>

datatype float64 = NaN | NegInf | Finite real | PosInf

text \<open>\<^verbatim>\<open>math.IsNaN(f)\<close> and \<^verbatim>\<open>math.IsInf(f, sign)\<close> of Go's standard library.\<close>

fun IsNaN :: "float64 \<Rightarrow> bool" where
  "IsNaN NaN = True"
| "IsNaN _ = False"

fun IsInf :: "float64 \<Rightarrow> int \<Rightarrow> bool" where
  "IsInf PosInf sign = (sign \<ge> 0)"
| "IsInf NegInf sign = (sign \<le> 0)"
| "IsInf _ sign = False"

text \<open>The comparisons \<^verbatim>\<open><\<close> and \<^verbatim>\<open><=\<close> of Go on floats: false as soon as one side is NaN.\<close>

fun flt :: "float64 \<Rightarrow> float64 \<Rightarrow> bool" where
  "flt NaN _ = False"
| "flt _ NaN = False"
| "flt _ NegInf = False"
| "flt NegInf _ = True"
| "flt PosInf _ = False"
| "flt (Finite a) (Finite b) = (a < b)"
| "flt (Finite a) PosInf = True"

fun fle :: "float64 \<Rightarrow> float64 \<Rightarrow> bool" where
  "fle NaN _ = False"
| "fle _ NaN = False"
| "fle NegInf _ = True"
| "fle _ PosInf = True"
| "fle PosInf _ = False"
| "fle _ NegInf = False"
| "fle (Finite a) (Finite b) = (a \<le> b)"

text \<open>
  \<^verbatim>\<open>math.Max\<close> and \<^verbatim>\<open>math.Min\<close>: the infinity that wins is tested first, then NaN,
  then the ordinary comparison.
\<close>

definition fmax :: "float64 \<Rightarrow> float64 \<Rightarrow> float64" where
  "fmax x y =
     (if IsInf x 1 \<or> IsInf y 1 then PosInf
      else if IsNaN x \<or> IsNaN y then NaN
      else if flt y x then x else y)"

definition fmin :: "float64 \<Rightarrow> float64 \<Rightarrow> float64" where
  "fmin x y =
     (if IsInf x (-1) \<or> IsInf y (-1) then NegInf
      else if IsNaN x \<or> IsNaN y then NaN
      else if flt x y then x else y)"




text \<open>The sign of an infinite result: positive when both operands have the same sign.\<close>

definition signed_inf :: "bool \<Rightarrow> float64" where
  "signed_inf positive = (if positive then PosInf else NegInf)"

fun fmul :: "float64 \<Rightarrow> float64 \<Rightarrow> float64" where
  "fmul NaN _ = NaN"
| "fmul _ NaN = NaN"
| "fmul (Finite a) (Finite b) = Finite (a * b)"
| "fmul (Finite a) PosInf = (if a = 0 then NaN else signed_inf (0 < a))"
| "fmul (Finite a) NegInf = (if a = 0 then NaN else signed_inf (a < 0))"
| "fmul PosInf (Finite b) = (if b = 0 then NaN else signed_inf (0 < b))"
| "fmul NegInf (Finite b) = (if b = 0 then NaN else signed_inf (b < 0))"
| "fmul PosInf PosInf = PosInf"
| "fmul NegInf NegInf = PosInf"
| "fmul PosInf NegInf = NegInf"
| "fmul NegInf PosInf = NegInf"

fun fdiv :: "float64 \<Rightarrow> float64 \<Rightarrow> float64" where
  "fdiv NaN _ = NaN"
| "fdiv _ NaN = NaN"
| "fdiv (Finite a) (Finite b) =
     (if b = 0 then (if a = 0 then NaN else signed_inf (0 < a)) else Finite (a / b))"
| "fdiv (Finite a) PosInf = Finite 0"
| "fdiv (Finite a) NegInf = Finite 0"
| "fdiv PosInf (Finite b) = signed_inf (0 \<le> b)"
| "fdiv NegInf (Finite b) = signed_inf (b < 0)"
| "fdiv PosInf PosInf = NaN"
| "fdiv PosInf NegInf = NaN"
| "fdiv NegInf PosInf = NaN"
| "fdiv NegInf NegInf = NaN"

text \<open>
  Rounding to float64 (IEEE 754 binary64, round to nearest, ties to even). The exponent
  of a real is that of its binade, and not below that of the subnormal numbers; one unit
  in the last place is 52 binary digits below it; a result of magnitude \<open>2^1024\<close> or
  more overflows to the infinity of its sign.
\<close>

definition pow2 :: "int \<Rightarrow> real" where
  "pow2 k = (if 0 \<le> k then 2 ^ nat k else 1 / 2 ^ nat (- k))"

definition expo :: "real \<Rightarrow> int" where
  "expo x = max \<lfloor>log 2 \<bar>x\<bar>\<rfloor> (- 1022)"

definition ulp :: "real \<Rightarrow> real" where
  "ulp x = pow2 (expo x - 52)"

definition round_even :: "real \<Rightarrow> int" where
  "round_even y =
     (if y - real_of_int \<lfloor>y\<rfloor> < 1 / 2 then \<lfloor>y\<rfloor>
      else if 1 / 2 < y - real_of_int \<lfloor>y\<rfloor> then \<lfloor>y\<rfloor> + 1
      else if even \<lfloor>y\<rfloor> then \<lfloor>y\<rfloor> else \<lfloor>y\<rfloor> + 1)"

definition round64 :: "real \<Rightarrow> float64" where
  "round64 x =
     (let r = real_of_int (round_even (x / ulp x)) * ulp x
      in if 2 ^ 1024 \<le> \<bar>r\<bar> then signed_inf (0 < x) else Finite r)"

text \<open>The product of two float64 values as the machine computes it.\<close>

definition fmul64 :: "float64 \<Rightarrow> float64 \<Rightarrow> float64" where
  "fmul64 a b = (case fmul a b of Finite r \<Rightarrow> round64 r | v \<Rightarrow> v)"

section \<open>Package hdrcolor: the three colour variants\<close>

text \<open>
  \<^verbatim>\<open>RGB\<close>, \<^verbatim>\<open>XYZ\<close> and \<^verbatim>\<open>RAW\<close> are the three structs implementing the interface
  \<^verbatim>\<open>Color\<close>. The conversions between linear RGB and XYZ belong to the imported
  library go-colorful; they are arguments of the methods that call them.
\<close>

datatype Color = RGB float64 float64 float64 | XYZ float64 float64 float64 | RAW float64 float64 float64

type_synonym triple = "float64 \<times> float64 \<times> float64"

type_synonym quad = "float64 \<times> float64 \<times> float64 \<times> float64"

record colorful =
  LinearRgbToXyz :: "float64 \<Rightarrow> float64 \<Rightarrow> float64 \<Rightarrow> triple"
  XyzToLinearRgb :: "float64 \<Rightarrow> float64 \<Rightarrow> float64 \<Rightarrow> triple"

definition with_alpha :: "triple \<Rightarrow> float64 \<Rightarrow> quad" where
  "with_alpha t a = (case t of (p, q, r) \<Rightarrow> (p, q, r, a))"

text \<open>The methods of \<^verbatim>\<open>RGB\<close> (lines 44 to 65).\<close>

definition RGB_HDRRGBA :: "float64 \<Rightarrow> float64 \<Rightarrow> float64 \<Rightarrow> quad" where
  "RGB_HDRRGBA r g b = (r, g, b, Finite 65535)"

definition RGB_HDRXYZA :: "colorful \<Rightarrow> float64 \<Rightarrow> float64 \<Rightarrow> float64 \<Rightarrow> quad" where
  "RGB_HDRXYZA cf r g b = with_alpha (LinearRgbToXyz cf r g b) (Finite 65535)"

definition RGB_HDRPixel :: "float64 \<Rightarrow> float64 \<Rightarrow> float64 \<Rightarrow> quad" where
  "RGB_HDRPixel r g b = RGB_HDRRGBA r g b"

text \<open>The methods of \<^verbatim>\<open>XYZ\<close> (lines 86 to 108).\<close>

definition XYZ_HDRRGBA :: "colorful \<Rightarrow> float64 \<Rightarrow> float64 \<Rightarrow> float64 \<Rightarrow> quad" where
  "XYZ_HDRRGBA cf x y z = with_alpha (XyzToLinearRgb cf x y z) (Finite 65535)"

definition XYZ_HDRXYZA :: "float64 \<Rightarrow> float64 \<Rightarrow> float64 \<Rightarrow> quad" where
  "XYZ_HDRXYZA x y z = (x, y, z, Finite 65535)"

definition XYZ_HDRPixel :: "float64 \<Rightarrow> float64 \<Rightarrow> float64 \<Rightarrow> quad" where
  "XYZ_HDRPixel x y z = XYZ_HDRXYZA x y z"

text \<open>The methods of \<^verbatim>\<open>RAW\<close> (lines 130 to 143).\<close>

definition RAW_HDRPixel :: "float64 \<Rightarrow> float64 \<Rightarrow> float64 \<Rightarrow> quad" where
  "RAW_HDRPixel p1 p2 p3 = (p1, p2, p3, Finite 65535)"

definition RAW_HDRRGBA :: "float64 \<Rightarrow> float64 \<Rightarrow> float64 \<Rightarrow> quad" where
  "RAW_HDRRGBA p1 p2 p3 = RAW_HDRPixel p1 p2 p3"

definition RAW_HDRXYZA :: "float64 \<Rightarrow> float64 \<Rightarrow> float64 \<Rightarrow> quad" where
  "RAW_HDRXYZA p1 p2 p3 = RAW_HDRPixel p1 p2 p3"

text \<open>A call through the interface \<^verbatim>\<open>Color\<close> runs the method of the value's own struct.\<close>

fun HDRRGBA :: "colorful \<Rightarrow> Color \<Rightarrow> quad" where
  "HDRRGBA cf (RGB r g b) = RGB_HDRRGBA r g b"
| "HDRRGBA cf (XYZ x y z) = XYZ_HDRRGBA cf x y z"
| "HDRRGBA cf (RAW p1 p2 p3) = RAW_HDRRGBA p1 p2 p3"

fun HDRXYZA :: "colorful \<Rightarrow> Color \<Rightarrow> quad" where
  "HDRXYZA cf (RGB r g b) = RGB_HDRXYZA cf r g b"
| "HDRXYZA cf (XYZ x y z) = XYZ_HDRXYZA x y z"
| "HDRXYZA cf (RAW p1 p2 p3) = RAW_HDRXYZA p1 p2 p3"

fun HDRPixel :: "Color \<Rightarrow> quad" where
  "HDRPixel (RGB r g b) = RGB_HDRPixel r g b"
| "HDRPixel (XYZ x y z) = XYZ_HDRPixel x y z"
| "HDRPixel (RAW p1 p2 p3) = RAW_HDRPixel p1 p2 p3"

definition alpha :: "quad \<Rightarrow> float64" where
  "alpha q = snd (snd (snd q))"

section \<open>Package tmo: the iCAM06 operator\<close>

text \<open>\<^verbatim>\<open>clampToZero\<close> (lines 409 to 414).\<close>

definition clampToZero :: "float64 \<Rightarrow> float64" where
  "clampToZero x = (if IsNaN x \<or> IsInf x (-1) \<or> IsInf x 1 then Finite 0 else x)"

subsection \<open>Images, rectangles and tiles\<close>

text \<open>
  \<^verbatim>\<open>image.Rectangle\<close> of Go's standard library: the pixels \<open>(x, y)\<close> with
  \<open>MinX \<le> x < MaxX\<close> and \<open>MinY \<le> y < MaxY\<close>.
\<close>

record Rectangle =
  MinX :: int
  MinY :: int
  MaxX :: int
  MaxY :: int

definition Rect :: "int \<Rightarrow> int \<Rightarrow> int \<Rightarrow> int \<Rightarrow> Rectangle" where
  "Rect x1 y1 x2 y2 = \<lparr>MinX = x1, MinY = y1, MaxX = x2, MaxY = y2\<rparr>"

definition Dx :: "Rectangle \<Rightarrow> int" where
  "Dx r = MaxX r - MinX r"

definition Dy :: "Rectangle \<Rightarrow> int" where
  "Dy r = MaxY r - MinY r"

text \<open>
  Modelled from the spec: the interface \<^verbatim>\<open>hdr.Image\<close> (package hdr is not among the
  sources) is a grid of colours with fixed bounds, queried by \<open>(x, y)\<close>, whose
  \<^verbatim>\<open>Size()\<close> is the number of pixels.
\<close>

record Image =
  Bounds :: Rectangle
  HDRAt :: "int \<Rightarrow> int \<Rightarrow> Color"

definition Size :: "Image \<Rightarrow> int" where
  "Size m = Dx (Bounds m) * Dy (Bounds m)"

text \<open>
  The pixels visited by the loops \<^verbatim>\<open>for y := y1; y < y2; y++ { for x := x1; x < x2; x++\<close>,
  in the order of the visits.
\<close>

definition tile_pixels :: "Rectangle \<Rightarrow> (int \<times> int) list" where
  "tile_pixels r = concat (map (\<lambda>y. map (\<lambda>x. (x, y)) [MinX r..MaxX r - 1]) [MinY r..MaxY r - 1])"

text \<open>
  Modelled from the spec: \<^verbatim>\<open>util.ParallelR(bounds, f)\<close> (package util is not among the
  sources) cuts the bounds into rectangular tiles, runs \<^verbatim>\<open>f\<close> once on each tile and
  signals completion when all have returned. The cut depends on the machine, so the
  tiles are an argument of every function that calls it. They are run one after the
  other, in the order of the list.
\<close>

type_synonym tiling = "Rectangle list"

subsection \<open>The operator and its constructor\<close>

text \<open>
  Modelled from the spec: \<^verbatim>\<open>util.Clamp(min, max, v)\<close> (package util is not among the
  sources) limits \<open>v\<close> to the range from \<open>min\<close> to \<open>max\<close>. It is written with the
  two comparisons of floats, so that a NaN, which compares false with everything, goes
  through: the spec lets a NaN of the final clipping propagate through the clamp into
  the output encoding.
\<close>

definition Clamp :: "float64 \<Rightarrow> float64 \<Rightarrow> float64 \<Rightarrow> float64" where
  "Clamp lo hi v = (if flt v lo then lo else if flt hi v then hi else v)"

text \<open>The constant \<^verbatim>\<open>maxLum\<close> of the package (line 17), not the field of the same name.\<close>

definition const_maxLum :: float64 where
  "const_maxLum = Finite 20000"

text \<open>
  The struct \<^verbatim>\<open>ICam06\<close> (lines 39 to 51). An image field that is \<^verbatim>\<open>nil\<close> is \<open>None\<close>.
\<close>

record ICam06 =
  HDRImage :: Image
  Contrast :: float64
  MinClipping :: float64
  MaxClipping :: float64
  width :: int
  height :: int
  maxLum :: float64
  normalized :: "Image option"
  baseLayer :: "Image option"
  white :: "Image option"
  detailCombined :: "Image option"

text \<open>
  \<^verbatim>\<open>NewICam06\<close> (lines 59 to 68). The literal names six fields; Go gives the others
  their zero value, which is 0 for the field \<^verbatim>\<open>maxLum\<close> and \<^verbatim>\<open>nil\<close> for the images.
\<close>

definition NewICam06 :: "Image \<Rightarrow> float64 \<Rightarrow> float64 \<Rightarrow> float64 \<Rightarrow> ICam06" where
  "NewICam06 m contrast minClipping maxClipping =
     \<lparr>HDRImage = m,
      Contrast = Clamp (Finite 0.6) (Finite 0.85) contrast,
      MinClipping = Clamp (Finite 0) (Finite 1) minClipping,
      MaxClipping = Clamp (Finite 0) (Finite 1) maxClipping,
      width = Dx (Bounds m),
      height = Dy (Bounds m),
      maxLum = Finite 0,
      normalized = None,
      baseLayer = None,
      white = None,
      detailCombined = None\<rparr>"

definition NewDefaultICam06 :: "Image \<Rightarrow> ICam06" where
  "NewDefaultICam06 m = NewICam06 m (Finite 0.75) (Finite 0.01) (Finite 0.99)"

subsection \<open>Stage 1: the luminance scan\<close>

definition Y_of :: "quad \<Rightarrow> float64" where
  "Y_of q = fst (snd q)"

text \<open>The luminance read at line 150: \<^verbatim>\<open>_, lum, _, _ := t.HDRImage.HDRAt(x, y).HDRXYZA()\<close>.\<close>

definition lum_at :: "colorful \<Rightarrow> Image \<Rightarrow> int \<times> int \<Rightarrow> float64" where
  "lum_at cf m p = Y_of (HDRXYZA cf (HDRAt m (fst p) (snd p)))"

text \<open>
  The function run on one tile (lines 146 to 156): \<^verbatim>\<open>max\<close> starts at 0, every pixel
  assigns \<^verbatim>\<open>math.Max(t.maxLum, lum)\<close> to it, and the value after the last pixel
  is sent on the channel.
\<close>

definition luminance_tile :: "colorful \<Rightarrow> ICam06 \<Rightarrow> Rectangle \<Rightarrow> float64" where
  "luminance_tile cf t r =
     fold (\<lambda>p mx. fmax (maxLum t) (lum_at cf (HDRImage t) p)) (tile_pixels r) (Finite 0)"

text \<open>
  \<^verbatim>\<open>luminance\<close> (lines 142 to 167): each value received from a tile is folded into
  the field with \<^verbatim>\<open>t.maxLum = math.Max(t.maxLum, max)\<close>. The channel is unbuffered,
  so every tile's value is received before the completion signal.
\<close>

definition luminance :: "colorful \<Rightarrow> tiling \<Rightarrow> ICam06 \<Rightarrow> ICam06" where
  "luminance cf tiles t =
     fold (\<lambda>r t'. t'\<lparr>maxLum := fmax (maxLum t') (luminance_tile cf t' r)\<rparr>) tiles t"

subsection \<open>Stage 2: the normalizer\<close>

text \<open>
  Modelled from the spec: \<^verbatim>\<open>filter.NewApply1(m, f)\<close> (package filter is not among the
  sources) is the image with the bounds of \<open>m\<close> whose pixel at \<open>(x, y)\<close> is \<open>f\<close> of
  the pixel of \<open>m\<close> there.
\<close>

definition NewApply1 :: "Image \<Rightarrow> (Color \<Rightarrow> Color) \<Rightarrow> Image" where
  "NewApply1 m f = \<lparr>Bounds = Bounds m, HDRAt = (\<lambda>x y. f (HDRAt m x y))\<rparr>"

text \<open>The rescaling of one channel (lines 79 to 81).\<close>

definition rescale :: "ICam06 \<Rightarrow> float64 \<Rightarrow> float64" where
  "rescale t v = fmul (fdiv v (maxLum t)) const_maxLum"

text \<open>The function given to \<^verbatim>\<open>NewApply1\<close> at lines 76 to 83.\<close>

definition normalize_pixel :: "colorful \<Rightarrow> ICam06 \<Rightarrow> Color \<Rightarrow> Color" where
  "normalize_pixel cf t c1 =
     (case HDRXYZA cf c1 of (x, y, z, _) \<Rightarrow>
        XYZ (Clamp (Finite 0.00000001) const_maxLum (rescale t x))
            (Clamp (Finite 0.00000001) const_maxLum (rescale t y))
            (Clamp (Finite 0.00000001) const_maxLum (rescale t z)))"

text \<open>The first two statements of \<^verbatim>\<open>Perform\<close> (lines 75 to 83).\<close>

definition input_normalization :: "colorful \<Rightarrow> tiling \<Rightarrow> ICam06 \<Rightarrow> ICam06" where
  "input_normalization cf tiles t =
     (let t1 = luminance cf tiles t
      in t1\<lparr>normalized := Some (NewApply1 (HDRImage t1) (normalize_pixel cf t1))\<rparr>)"



subsection \<open>The percentile table\<close>

text \<open>
  A run of Go either returns or stops with a run-time panic; indexing a slice outside
  its length panics. Where the language leaves the result of a conversion to the
  implementation, the model says so instead of choosing a value.
\<close>

datatype error = IndexOutOfRange int nat | ImplementationDependent

text \<open>
  The conversion \<^verbatim>\<open>int(f)\<close> of a float64: the fraction is discarded (truncation towards
  zero); for NaN, an infinity or a value outside the 64-bit range the language leaves
  the result to the implementation.
\<close>

definition truncate :: "real \<Rightarrow> int" where
  "truncate r = (if 0 \<le> r then \<lfloor>r\<rfloor> else \<lceil>r\<rceil>)"

fun float_to_int :: "float64 \<Rightarrow> int option" where
  "float_to_int (Finite r) =
     (if - (2 ^ 63) \<le> truncate r \<and> truncate r < 2 ^ 63 then Some (truncate r) else None)"
| "float_to_int _ = None"

text \<open>The type \<^verbatim>\<open>percentiles\<close> (line 434) is a slice of float64.\<close>

type_synonym percentiles = "float64 list"

text \<open>
  Lines 441 and 442 of \<^verbatim>\<open>percentile\<close>: \<^verbatim>\<open>n := float64(len(p))\<close> rounds the length
  to a float64, \<^verbatim>\<open>clipping * n\<close> is the rounded product, and \<^verbatim>\<open>int\<close> truncates it.
\<close>

definition length64 :: "percentiles \<Rightarrow> float64" where
  "length64 p = round64 (real (length p))"

definition percentile_index :: "percentiles \<Rightarrow> float64 \<Rightarrow> int option" where
  "percentile_index p clipping = float_to_int (fmul64 clipping (length64 p))"

text \<open>\<^verbatim>\<open>percentile\<close> (lines 440 to 444): the read \<^verbatim>\<open>p[i]\<close> panics outside the slice.\<close>

definition percentile :: "percentiles \<Rightarrow> float64 \<Rightarrow> error + float64" where
  "percentile p clipping =
     (case percentile_index p clipping of
        None \<Rightarrow> Inl ImplementationDependent
      | Some i \<Rightarrow>
          if 0 \<le> i \<and> i < int (length p) then Inr (p ! nat i)
          else Inl (IndexOutOfRange i (length p)))"

text \<open>The assignment \<^verbatim>\<open>perc[i] = v\<close>, which panics outside the slice as well.\<close>

definition store :: "percentiles \<Rightarrow> int \<Rightarrow> float64 \<Rightarrow> error + percentiles" where
  "store perc i v =
     (if 0 \<le> i \<and> i < int (length perc) then Inr (perc[nat i := v])
      else Inl (IndexOutOfRange i (length perc)))"

definition and_then :: "error + 'a \<Rightarrow> ('a \<Rightarrow> error + 'b) \<Rightarrow> error + 'b" where
  "and_then r f = (case r of Inl e \<Rightarrow> Inl e | Inr v \<Rightarrow> f v)"

text \<open>
  The body of the loop at lines 361 to 367, for the pixel \<open>(x, y)\<close>; \<open>sz\<close> is the
  variable \<^verbatim>\<open>size\<close>. The closure
  \<^verbatim>\<open>normLum\<close> (lines 342 to 352) is an argument: it gives the three normalized
  linear-RGB channels of a pixel.
\<close>

definition fill_pixel ::
  "(int \<Rightarrow> int \<Rightarrow> triple) \<Rightarrow> int \<Rightarrow> int \<times> int \<Rightarrow> percentiles \<Rightarrow> error + percentiles" where
  "fill_pixel normLum sz p perc =
     (case p of (x, y) \<Rightarrow>
        (case normLum x y of (r, g, b) \<Rightarrow>
           (let i = x * y
            in and_then (store perc i r) (\<lambda>perc1.
               and_then (store perc1 (sz + i) g) (\<lambda>perc2.
               store perc2 (sz * 2 + i) b)))))"

fun fill_pixels ::
  "(int \<Rightarrow> int \<Rightarrow> triple) \<Rightarrow> int \<Rightarrow> (int \<times> int) list \<Rightarrow> percentiles \<Rightarrow> error + percentiles" where
  "fill_pixels normLum sz [] perc = Inr perc"
| "fill_pixels normLum sz (p # ps) perc =
     and_then (fill_pixel normLum sz p perc) (fill_pixels normLum sz ps)"

text \<open>
  Lines 355 to 372 of \<^verbatim>\<open>normalize\<close>: the table is made with \<open>3 * size\<close> zeros and
  the tiles fill it.
\<close>

definition fill_table :: "(int \<Rightarrow> int \<Rightarrow> triple) \<Rightarrow> Image \<Rightarrow> tiling \<Rightarrow> error + percentiles" where
  "fill_table normLum m tiles =
     fill_pixels normLum (Size m) (concat (map tile_pixels tiles))
       (replicate (nat (Size m * 3)) (Finite 0))"

subsection \<open>The final clipping and the encoding of a channel\<close>








subsection \<open>Which image is read and written, and when\<close>

text \<open>
  The images of a run, by the names the program gives them. \<^verbatim>\<open>toneCompression\<close>
  takes the raster of the local white point for its own output (line 191), so
  \<open>White\<close> and \<open>ToneCompressed\<close> are two names of one raster.
\<close>

datatype buffer =
  Source | Normalized | BaseLayer | White | ToneCompressed | DetailLayer | DetailCombined | Output

datatype access = Read buffer "int \<times> int" | Write buffer "int \<times> int"

fun raster :: "buffer \<Rightarrow> nat" where
  "raster Source = 0"
| "raster Normalized = 1"
| "raster BaseLayer = 2"
| "raster White = 3"
| "raster ToneCompressed = 3"
| "raster DetailLayer = 4"
| "raster DetailCombined = 5"
| "raster Output = 6"

text \<open>
  A write under a new name frees the image that the raster held before: the only such
  write is that of the tone-compressed pixel, which frees the local white point.
\<close>

fun frees :: "buffer \<Rightarrow> buffer option" where
  "frees ToneCompressed = Some White"
| "frees _ = None"

text \<open>
  The accesses of each statement of \<^verbatim>\<open>Perform\<close>, in program order. The tiles of a
  call of \<^verbatim>\<open>util.ParallelR\<close> are taken one after the other.
  Modelled from the spec: the filters of package filter (not among the sources) are
  whole-image transforms, evaluated when they are built: each reads every pixel of its
  input and writes every pixel of its output.
\<close>

definition luminance_accesses :: "tiling \<Rightarrow> access list" where
  "luminance_accesses tiles = map (Read Source) (concat (map tile_pixels tiles))"

definition normalizer_accesses :: "Rectangle \<Rightarrow> access list" where
  "normalizer_accesses b = concat (map (\<lambda>p. [Read Source p, Write Normalized p]) (tile_pixels b))"

definition baseLayer_accesses :: "Rectangle \<Rightarrow> access list" where
  "baseLayer_accesses b = map (Read Normalized) (tile_pixels b) @ map (Write BaseLayer) (tile_pixels b)"

definition white_accesses :: "Rectangle \<Rightarrow> access list" where
  "white_accesses b = map (Read Normalized) (tile_pixels b) @ map (Write White) (tile_pixels b)"

text \<open>
  \<^verbatim>\<open>toneCompression\<close> (lines 190 to 264). The loop for \<^verbatim>\<open>Sw\<close> reads the white point
  of every pixel from \<open>(0, 0)\<close> to \<open>(width, height)\<close> (line 196). Then each pixel of
  each tile reads its white point (line 204), \<^verbatim>\<open>chromaticAdaptation\<close> reads its base
  layer (line 170) and its white point (line 173), and the result is set at the same
  pixel of the same raster (line 255).
\<close>

definition toneCompression_pixel :: "int \<times> int \<Rightarrow> access list" where
  "toneCompression_pixel p = [Read White p, Read BaseLayer p, Read White p, Write ToneCompressed p]"

definition toneCompression_accesses :: "int \<Rightarrow> int \<Rightarrow> tiling \<Rightarrow> access list" where
  "toneCompression_accesses w h tiles =
     map (Read White) (tile_pixels (Rect 0 0 w h)) @
     concat (map toneCompression_pixel (concat (map tile_pixels tiles)))"

text \<open>Lines 102 to 121 and lines 125 to 134.\<close>

definition detailLayer_accesses :: "Rectangle \<Rightarrow> access list" where
  "detailLayer_accesses b =
     concat (map (\<lambda>p. [Read Normalized p, Read BaseLayer p, Write DetailLayer p]) (tile_pixels b))"

definition detailCombined_accesses :: "Rectangle \<Rightarrow> access list" where
  "detailCombined_accesses b =
     concat (map (\<lambda>p. [Read ToneCompressed p, Read DetailLayer p, Write DetailCombined p])
       (tile_pixels b))"

text \<open>
  \<^verbatim>\<open>colorfullnessXsurround\<close> (lines 294 to 312) reads the detail-combined image
  through \<^verbatim>\<open>iptColor\<close> (line 267) and the base layer (line 297). \<^verbatim>\<open>normalize\<close> calls
  it for every pixel in each of its three passes; the third pass sets the output pixel
  (line 389).
\<close>

definition colorfullnessXsurround_accesses :: "int \<times> int \<Rightarrow> access list" where
  "colorfullnessXsurround_accesses p = [Read DetailCombined p, Read BaseLayer p]"

definition normalize_accesses :: "tiling \<Rightarrow> tiling \<Rightarrow> tiling \<Rightarrow> access list" where
  "normalize_accesses tiles1 tiles2 tiles3 =
     concat (map colorfullnessXsurround_accesses (concat (map tile_pixels tiles1))) @
     concat (map colorfullnessXsurround_accesses (concat (map tile_pixels tiles2))) @
     concat (map (\<lambda>p. colorfullnessXsurround_accesses p @ [Write Output p])
       (concat (map tile_pixels tiles3)))"

text \<open>The stages that run after \<^verbatim>\<open>toneCompression\<close> has returned (lines 102 to 139).\<close>

definition later_accesses :: "Rectangle \<Rightarrow> tiling \<Rightarrow> tiling \<Rightarrow> tiling \<Rightarrow> access list" where
  "later_accesses b tiles1 tiles2 tiles3 =
     detailLayer_accesses b @ detailCombined_accesses b @ normalize_accesses tiles1 tiles2 tiles3"

text \<open>
  \<^verbatim>\<open>Perform\<close> (lines 71 to 140) on an image of bounds \<open>b\<close>: \<open>tlum\<close> are the tiles of the
  luminance scan, \<open>tc\<close> those of the tone compression, \<open>tn1\<close>, \<open>tn2\<close> and \<open>tn3\<close>
  those of the three passes of \<^verbatim>\<open>normalize\<close>.
\<close>

definition Perform_accesses ::
  "Rectangle \<Rightarrow> tiling \<Rightarrow> tiling \<Rightarrow> tiling \<Rightarrow> tiling \<Rightarrow> tiling \<Rightarrow> access list" where
  "Perform_accesses b tlum tc tn1 tn2 tn3 =
     luminance_accesses tlum @ normalizer_accesses b @ baseLayer_accesses b @ white_accesses b @
     toneCompression_accesses (Dx b) (Dy b) tc @ later_accesses b tn1 tn2 tn3"

text \<open>
  No read of a freed image: after a write that frees the image \<open>b'\<close> at a pixel, no
  access reads \<open>b'\<close> at that pixel.
\<close>

fun no_read_after_free :: "access list \<Rightarrow> bool" where
  "no_read_after_free [] = True"
| "no_read_after_free (Read b p # tr) = no_read_after_free tr"
| "no_read_after_free (Write b p # tr) =
     ((case frees b of None \<Rightarrow> True | Some b' \<Rightarrow> Read b' p \<notin> set tr) \<and> no_read_after_free tr)"

subsection \<open>Sample inputs\<close>

definition one_pixel :: "Color \<Rightarrow> Image" where
  "one_pixel c = \<lparr>Bounds = Rect 0 0 1 1, HDRAt = (\<lambda>x y. c)\<rparr>"

definition two_pixels :: "Color \<Rightarrow> Color \<Rightarrow> Image" where
  "two_pixels c0 c1 = \<lparr>Bounds = Rect 0 0 2 1, HDRAt = (\<lambda>x y. if x = 0 then c0 else c1)\<rparr>"

definition column :: "Color \<Rightarrow> Color \<Rightarrow> Image" where
  "column c0 c1 = \<lparr>Bounds = Rect 0 0 1 2, HDRAt = (\<lambda>x y. if y = 0 then c0 else c1)\<rparr>"

text \<open>The float64 nearest to 0.99, the default of the maximal clipping.\<close>

definition c99 :: real where
  "c99 = 8917127262193582 / 2 ^ 53"

definition grey :: "real \<Rightarrow> Color" where
  "grey v = XYZ (Finite v) (Finite v) (Finite v)"

section \<open>Results\<close>

text \<open>
  C10. Whatever its channels hold, a colour of any of the three variants returns the
  alpha 65535 (0xFFFF) from each of \<^verbatim>\<open>HDRRGBA\<close>, \<^verbatim>\<open>HDRXYZA\<close> and \<^verbatim>\<open>HDRPixel\<close>,
  for every pair of conversions supplied by go-colorful.
\<close>

lemmas color_methods =
  RGB_HDRRGBA_def RGB_HDRXYZA_def RGB_HDRPixel_def XYZ_HDRRGBA_def XYZ_HDRXYZA_def
  XYZ_HDRPixel_def RAW_HDRPixel_def RAW_HDRRGBA_def RAW_HDRXYZA_def

theorem alpha_always_opaque:
  "alpha (HDRRGBA cf c) = Finite 65535 \<and>
   alpha (HDRXYZA cf c) = Finite 65535 \<and>
   alpha (HDRPixel c) = Finite 65535"
  by (cases c) (simp_all add: alpha_def with_alpha_def color_methods split: prod.splits)

text \<open>
  C9. \<^verbatim>\<open>clampToZero\<close> returns 0 for NaN, for plus infinity and for minus infinity,
  and returns every finite value, negative ones included, as it is.
\<close>

theorem clampToZero_spec:
  "clampToZero NaN = Finite 0 \<and> clampToZero PosInf = Finite 0 \<and>
   clampToZero NegInf = Finite 0 \<and> (\<forall>r. clampToZero (Finite r) = Finite r) \<and>
   clampToZero (Finite (- 3)) = Finite (- 3)"
  by (simp add: clampToZero_def)

subsection \<open>Facts about the float64 operations\<close>

lemma flt_NaN: "flt a NaN = False" "fle a NaN = False"
  by (cases a; simp)+





lemma Clamp_range:
  assumes "\<not> IsNaN v" and "fle lo hi"
  shows "fle lo (Clamp lo hi v) \<and> fle (Clamp lo hi v) hi"
  using assms by (cases v; cases lo; cases hi) (auto simp: Clamp_def flt_NaN)


subsection \<open>The sample inputs\<close>

lemma tile_pixels_one: "tile_pixels (Rect 0 0 1 1) = [(0, 0)]"
  by (simp add: tile_pixels_def Rect_def upto_rec1)

lemma tile_pixels_two: "tile_pixels (Rect 0 0 2 1) = [(0, 0), (1, 0)]"
  by (simp add: tile_pixels_def Rect_def upto_rec1)

lemma tile_pixels_second: "tile_pixels (Rect 1 0 2 1) = [(1, 0)]"
  by (simp add: tile_pixels_def Rect_def upto_rec1)

lemma HDRAt_sample:
  "HDRAt (one_pixel c) x y = c"
  "HDRAt (two_pixels c0 c1) 0 y = c0"
  "HDRAt (two_pixels c0 c1) 1 y = c1"
  by (simp_all add: one_pixel_def two_pixels_def)

lemma lum_at_grey:
  "lum_at cf (one_pixel (grey v)) p = Finite v"
  "lum_at cf (two_pixels (grey v) (grey w)) (0, y) = Finite v"
  "lum_at cf (two_pixels (grey v) (grey w)) (1, y) = Finite w"
  by (simp_all add: lum_at_def one_pixel_def two_pixels_def grey_def Y_of_def XYZ_HDRXYZA_def)

subsection \<open>The luminance scan\<close>

text \<open>
  A tile's loop assigns to \<^verbatim>\<open>max\<close> without reading it, so the value sent is that
  of the tile's last pixel.
\<close>

lemma fold_overwrite: "fold (\<lambda>p mx. g p) ps a = (if ps = [] then a else g (last ps))"
  by (induction ps arbitrary: a) auto

lemma luminance_tile_last:
  "luminance_tile cf t r =
     (if tile_pixels r = [] then Finite 0
      else fmax (maxLum t) (lum_at cf (HDRImage t) (last (tile_pixels r))))"
  by (simp add: luminance_tile_def fold_overwrite)

lemma luminance_Nil: "luminance cf [] t = t"
  by (simp add: luminance_def)

lemma luminance_Cons:
  "luminance cf (r # rs) t =
     luminance cf rs (t\<lparr>maxLum := fmax (maxLum t) (luminance_tile cf t r)\<rparr>)"
  by (simp add: luminance_def)

lemma luminance_HDRImage: "HDRImage (luminance cf tiles t) = HDRImage t"
  by (induction tiles arbitrary: t) (simp_all add: luminance_Nil luminance_Cons)

lemma fields_New: "maxLum (NewICam06 m c a b) = Finite 0" "HDRImage (NewICam06 m c a b) = m"
  by (simp_all add: NewICam06_def)

lemma HDRImage_Default: "HDRImage (NewDefaultICam06 m) = m"
  by (simp add: NewDefaultICam06_def fields_New)




lemmas luminance_eval = luminance_Cons luminance_Nil luminance_tile_last tile_pixels_one
  tile_pixels_two tile_pixels_second NewDefaultICam06_def fields_New lum_at_grey fmax_def


lemma peak_black_pixel:
  "maxLum (luminance cf [Rect 0 0 1 1] (NewDefaultICam06 (one_pixel (grey 0)))) = Finite 0"
  by (simp add: luminance_eval)

lemma peak_one_tile:
  "maxLum (luminance cf [Rect 0 0 2 1]
     (NewDefaultICam06 (two_pixels (grey 10) (grey 5)))) = Finite 5"
  by (simp add: luminance_eval)

lemma peak_two_tiles:
  "maxLum (luminance cf [Rect 0 0 1 1, Rect 1 0 2 1]
     (NewDefaultICam06 (two_pixels (grey 10) (grey 5)))) = Finite 10"
  by (simp add: luminance_eval)







subsection \<open>The normalizer\<close>

lemma normalized_at:
  "HDRAt (the (normalized (input_normalization cf tiles t))) x y =
     normalize_pixel cf (luminance cf tiles t) (HDRAt (HDRImage t) x y)"
  by (simp add: input_normalization_def Let_def NewApply1_def luminance_HDRImage)

lemma normalize_pixel_grey:
  "normalize_pixel cf t (grey v) =
     XYZ (Clamp (Finite 0.00000001) const_maxLum (rescale t (Finite v)))
         (Clamp (Finite 0.00000001) const_maxLum (rescale t (Finite v)))
         (Clamp (Finite 0.00000001) const_maxLum (rescale t (Finite v)))"
  by (simp add: normalize_pixel_def grey_def XYZ_HDRXYZA_def)

lemma normalized_one_tile:
  "HDRAt (the (normalized (input_normalization cf [Rect 0 0 2 1]
     (NewDefaultICam06 (two_pixels (grey 10) (grey 5)))))) 1 0 =
     XYZ (Finite 20000) (Finite 20000) (Finite 20000)"
  by (simp add: normalized_at HDRImage_Default peak_one_tile HDRAt_sample normalize_pixel_grey
      rescale_def const_maxLum_def Clamp_def)

lemma normalized_two_tiles:
  "HDRAt (the (normalized (input_normalization cf [Rect 0 0 1 1, Rect 1 0 2 1]
     (NewDefaultICam06 (two_pixels (grey 10) (grey 5)))))) 1 0 =
     XYZ (Finite 10000) (Finite 10000) (Finite 10000)"
  by (simp add: normalized_at HDRImage_Default peak_two_tiles HDRAt_sample normalize_pixel_grey
      rescale_def const_maxLum_def Clamp_def)

lemma normalized_black_pixel:
  "HDRAt (the (normalized (input_normalization cf [Rect 0 0 1 1]
     (NewDefaultICam06 (one_pixel (grey 0)))))) 0 0 = XYZ NaN NaN NaN"
  by (simp add: normalized_at HDRImage_Default peak_black_pixel HDRAt_sample
      normalize_pixel_grey rescale_def const_maxLum_def Clamp_def)

text \<open>
  C2. The result of a run depends on how the image is cut into tiles. On the image of
  two pixels with Y = 10 and Y = 5 the scan returns 5 when one tile holds both pixels
  and 10 when each pixel is a tile of its own, and the normalized pixel at \<open>(1, 0)\<close>
  is 20000 in the first run and 10000 in the second.
\<close>

theorem tiling_changes_the_peak:
  "\<forall>cf.
     maxLum (luminance cf [Rect 0 0 2 1]
       (NewDefaultICam06 (two_pixels (grey 10) (grey 5)))) = Finite 5 \<and>
     maxLum (luminance cf [Rect 0 0 1 1, Rect 1 0 2 1]
       (NewDefaultICam06 (two_pixels (grey 10) (grey 5)))) = Finite 10 \<and>
     HDRAt (the (normalized (input_normalization cf [Rect 0 0 2 1]
       (NewDefaultICam06 (two_pixels (grey 10) (grey 5)))))) 1 0 =
       XYZ (Finite 20000) (Finite 20000) (Finite 20000) \<and>
     HDRAt (the (normalized (input_normalization cf [Rect 0 0 1 1, Rect 1 0 2 1]
       (NewDefaultICam06 (two_pixels (grey 10) (grey 5)))))) 1 0 =
       XYZ (Finite 10000) (Finite 10000) (Finite 10000)"
  by (simp add: peak_one_tile peak_two_tiles normalized_one_tile normalized_two_tiles)

lemma Clamp_not_zero:
  assumes "\<not> IsNaN v"
  shows "Clamp (Finite 0.00000001) (Finite 20000) v \<noteq> Finite 0"
  using assms by (cases v) (auto simp: Clamp_def)

text \<open>
  C7, as amended. The normalizer rescales each of the channels X, Y and Z of a pixel
  by (value / peak) * 20000 and clamps the result to the range from 1e-8 to 20000;
  whenever the rescaled value is not NaN, the normalized channel lies in that range and
  is not zero.
\<close>

theorem normalizer_range:
  assumes "HDRXYZA cf (HDRAt (HDRImage t) px py) = (x, y, z, a)"
    and "maxLum (luminance cf tiles t) = peak"
    and "n = (\<lambda>v. Clamp (Finite 0.00000001) (Finite 20000) (fmul (fdiv v peak) (Finite 20000)))"
  shows "HDRAt (the (normalized (input_normalization cf tiles t))) px py = XYZ (n x) (n y) (n z) \<and>
    (\<forall>v. \<not> IsNaN (fmul (fdiv v peak) (Finite 20000)) \<longrightarrow>
       fle (Finite 0.00000001) (n v) \<and> fle (n v) (Finite 20000) \<and> n v \<noteq> Finite 0)"
proof -
  have "HDRAt (the (normalized (input_normalization cf tiles t))) px py = XYZ (n x) (n y) (n z)"
    using assms by (simp add: normalized_at normalize_pixel_def rescale_def const_maxLum_def)
  moreover have "fle (Finite 0.00000001) (n v) \<and> fle (n v) (Finite 20000) \<and> n v \<noteq> Finite 0"
    if "\<not> IsNaN (fmul (fdiv v peak) (Finite 20000))" for v
    using that Clamp_range [of "fmul (fdiv v peak) (Finite 20000)" "Finite 0.00000001" "Finite 20000"]
      Clamp_not_zero [of "fmul (fdiv v peak) (Finite 20000)"]
    by (simp add: assms(3))
  ultimately show ?thesis by blast
qed

theorem normalizer_range_witness:
  "\<forall>cf. \<not> IsNaN (fmul (fdiv (Finite 5) (Finite 10)) (Finite 20000)) \<and>
     HDRAt (the (normalized (input_normalization cf [Rect 0 0 1 1, Rect 1 0 2 1]
       (NewDefaultICam06 (two_pixels (grey 10) (grey 5)))))) 1 0 =
       XYZ (Finite 10000) (Finite 10000) (Finite 10000) \<and>
     fle (Finite 0.00000001) (Finite 10000) \<and> fle (Finite 10000) (Finite 20000)"
proof
  fix cf
  let ?t = "NewDefaultICam06 (two_pixels (grey 10) (grey 5))"
  have px: "HDRXYZA cf (HDRAt (HDRImage ?t) 1 0) = (Finite 5, Finite 5, Finite 5, Finite 65535)"
    by (simp add: HDRImage_Default HDRAt_sample grey_def XYZ_HDRXYZA_def)
  from normalizer_range [OF px peak_two_tiles [of cf] refl]
  show "\<not> IsNaN (fmul (fdiv (Finite 5) (Finite 10)) (Finite 20000)) \<and>
     HDRAt (the (normalized (input_normalization cf [Rect 0 0 1 1, Rect 1 0 2 1] ?t))) 1 0 =
       XYZ (Finite 10000) (Finite 10000) (Finite 10000) \<and>
     fle (Finite 0.00000001) (Finite 10000) \<and> fle (Finite 10000) (Finite 20000)"
    by (simp add: Clamp_def)
qed

text \<open>
  C7 as stated fails on a black image: its peak is 0, the quotient 0 / 0 is NaN, and the
  normalized pixel holds NaN in its three channels, which is not in the range.
\<close>

theorem normalizer_range_counterexample:
  "\<forall>cf. HDRAt (the (normalized (input_normalization cf [Rect 0 0 1 1]
       (NewDefaultICam06 (one_pixel (grey 0)))))) 0 0 = XYZ NaN NaN NaN \<and>
     \<not> fle (Finite 0.00000001) NaN"
  by (simp add: normalized_black_pixel)

subsection \<open>The constructor\<close>




subsection \<open>Rounding to float64\<close>

lemma pow2_powr: "pow2 k = 2 powr (real_of_int k)"
  by (simp add: pow2_def powr_real_of_int inverse_eq_divide)

lemma pow2_pos: "0 < pow2 k"
  by (simp add: pow2_def)

lemma expo_eq:
  assumes "pow2 k \<le> \<bar>x\<bar>" and "\<bar>x\<bar> < pow2 (k + 1)" and "- 1022 \<le> k"
  shows "expo x = k"
proof -
  have pos: "0 < \<bar>x\<bar>" using assms(1) pow2_pos [of k] by linarith
  have "\<lfloor>log 2 \<bar>x\<bar>\<rfloor> = k"
    using assms(1,2) floor_log_eq_powr_iff [of "\<bar>x\<bar>" 2 k] pos
    by (simp add: pow2_powr)
  then show ?thesis using assms(3) by (simp add: expo_def)
qed

lemma round_even_int: "round_even (real_of_int m) = m"
  by (simp add: round_even_def)

lemma round_even_nonneg: "0 \<le> y \<Longrightarrow> 0 \<le> round_even y"
  by (auto simp: round_even_def)

text \<open>A real that is a whole number of units in the last place is its own rounding.\<close>

lemma round64_exact:
  assumes "x / ulp x = real_of_int m" and "\<bar>x\<bar> < 2 ^ 1024"
  shows "round64 x = Finite x"
proof -
  have u: "ulp x \<noteq> 0" using pow2_pos [of "expo x - 52"] by (simp add: ulp_def)
  have "real_of_int (round_even (x / ulp x)) * ulp x = x"
    using assms(1) u by (simp add: round_even_int) (metis nonzero_divide_eq_eq)
  then show ?thesis using assms(2) by (simp add: round64_def Let_def)
qed

lemma expo_nat:
  assumes "1 \<le> n" and "n < 2 ^ 53"
  shows "0 \<le> expo (real n) \<and> expo (real n) \<le> 52"
proof -
  have pos: "0 < real n" using assms(1) by simp
  have "0 \<le> log 2 (real n)" using assms(1) by simp
  then have lo: "0 \<le> \<lfloor>log 2 (real n)\<rfloor>" by simp
  have "real n < 2 ^ 53" using assms(2) by (metis of_nat_less_numeral_power_cancel_iff)
  then have "real n < 2 powr 53" by simp
  then have "log 2 (real n) < 53" using pos by (simp add: log_less_iff)
  then have "\<lfloor>log 2 (real n)\<rfloor> < 53" by linarith
  with lo show ?thesis by (simp add: expo_def)
qed

text \<open>Every natural number below \<open>2^53\<close> is a float64.\<close>

lemma round64_nat:
  assumes "n < 2 ^ 53"
  shows "round64 (real n) = Finite (real n)"
proof (cases "n = 0")
  case True
  then show ?thesis by (simp add: round64_def round_even_def)
next
  case False
  then have e: "0 \<le> expo (real n)" "expo (real n) \<le> 52"
    using expo_nat [of n] assms by simp_all
  define k where "k = nat (52 - expo (real n))"
  have u: "ulp (real n) = 1 / 2 ^ k"
    using e by (cases "expo (real n) = 52") (simp_all add: ulp_def pow2_def k_def)
  have "real n / ulp (real n) = real_of_int (int n * 2 ^ k)" by (simp add: u)
  moreover have "\<bar>real n\<bar> < 2 ^ 1024"
  proof -
    have "real n < 2 ^ 53" using assms by (metis of_nat_less_numeral_power_cancel_iff)
    also have "\<dots> < (2::real) ^ 1024" by simp
    finally show ?thesis by simp
  qed
  ultimately show ?thesis by (rule round64_exact)
qed

lemma round64_nonneg:
  assumes "0 \<le> x"
  shows "round64 x = PosInf \<or> (\<exists>r. 0 \<le> r \<and> round64 x = Finite r)"
proof -
  have u: "0 < ulp x" by (simp add: ulp_def pow2_pos)
  then have "0 \<le> x / ulp x" using assms by simp
  then have "0 \<le> round_even (x / ulp x)" by (rule round_even_nonneg)
  then have r: "0 \<le> real_of_int (round_even (x / ulp x)) * ulp x" using u by simp
  show ?thesis
  proof (cases "x = 0")
    case True
    then show ?thesis by (simp add: round64_def round_even_def)
  next
    case False
    with assms have "0 < x" by simp
    with r show ?thesis by (auto simp: round64_def Let_def signed_inf_def)
  qed
qed

lemma round64_three_halves: "round64 (3 / 2) = Finite (3 / 2)"
proof -
  have e: "expo (3 / 2) = 0" by (rule expo_eq) (simp_all add: pow2_def)
  have "(3 / 2 :: real) / ulp (3 / 2) = real_of_int (3 * 2 ^ 51)"
    by (simp add: ulp_def e pow2_def)
  then show ?thesis by (rule round64_exact) simp
qed

text \<open>
  The product of the float64 nearest to 0.99 and 300 lies within half a unit in the
  last place of 297 and is rounded to it, although the exact product is below 297.
\<close>

lemma round64_c99_300: "round64 (c99 * 300) = Finite 297"
proof -
  have e: "expo (c99 * 300) = 8" by (rule expo_eq) (simp_all add: pow2_def c99_def)
  have u: "ulp (c99 * 300) = 1 / 2 ^ 44" by (simp add: ulp_def e pow2_def)
  have q: "c99 * 300 / ulp (c99 * 300) = 5224879255191551 + 61 / 64"
    unfolding u by (simp add: c99_def)
  have fl: "\<lfloor>5224879255191551 + 61 / 64 :: real\<rfloor> = 5224879255191551" by linarith
  have "round_even (c99 * 300 / ulp (c99 * 300)) = 5224879255191552"
    unfolding q by (simp add: round_even_def fl)
  then show ?thesis by (simp add: round64_def Let_def u)
qed

lemma exact_floor_c99_300: "\<lfloor>c99 * 300\<rfloor> = 296"
  by (simp add: c99_def floor_eq_iff)

subsection \<open>The percentile query\<close>

lemma truncate_nonneg: "0 \<le> r \<Longrightarrow> truncate r = \<lfloor>r\<rfloor>"
  by (simp add: truncate_def)

lemma length64_exact: "length p < 2 ^ 53 \<Longrightarrow> length64 p = Finite (real (length p))"
  by (simp add: length64_def round64_nat)

lemma percentile_index_one:
  assumes "length p < 2 ^ 53"
  shows "percentile_index p (Finite 1) = Some (int (length p))"
proof -
  have "int (length p) < 2 ^ 53" using assms by (metis of_nat_less_numeral_power_cancel_iff)
  then have "int (length p) < 2 ^ 63" by (rule less_trans) simp
  moreover have "- (2 ^ 63) \<le> int (length p)" by (rule order_trans [of _ 0]) simp_all
  ultimately show ?thesis
    by (simp add: percentile_index_def length64_exact [OF assms] fmul64_def
        round64_nat [OF assms] truncate_def)
qed

lemma percentile_in_range:
  assumes "0 \<le> c" and "length p < 2 ^ 53"
    and "fmul64 (Finite c) (length64 p) = Finite r" and "truncate r < int (length p)"
  shows "0 \<le> r \<and> percentile_index p (Finite c) = Some \<lfloor>r\<rfloor> \<and>
    percentile p (Finite c) = Inr (p ! nat \<lfloor>r\<rfloor>)"
proof -
  have "0 \<le> c * real (length p)" using assms(1) by simp
  moreover have "round64 (c * real (length p)) = Finite r"
    using assms(3) by (simp add: fmul64_def length64_exact [OF assms(2)])
  ultimately have nonneg: "0 \<le> r" using round64_nonneg [of "c * real (length p)"] by auto
  then have tr: "truncate r = \<lfloor>r\<rfloor>" by (rule truncate_nonneg)
  have lo: "0 \<le> \<lfloor>r\<rfloor>" using nonneg by simp
  have "int (length p) < 2 ^ 53" using assms(2) by (metis of_nat_less_numeral_power_cancel_iff)
  then have "int (length p) < 2 ^ 63" by (rule less_trans) simp
  with assms(4) tr have hi: "\<lfloor>r\<rfloor> < 2 ^ 63" by linarith
  have "- (2 ^ 63) \<le> \<lfloor>r\<rfloor>" using lo by (rule order_trans [rotated]) simp
  with hi tr have idx: "percentile_index p (Finite c) = Some \<lfloor>r\<rfloor>"
    using assms(3) by (simp add: percentile_index_def)
  with lo assms(4) tr nonneg show ?thesis by (simp add: percentile_def)
qed

text \<open>
  With the default clipping and a table of 300 samples the query reads the index 297,
  as the program does.
\<close>

lemma percentile_index_default:
  assumes "length p = 300"
  shows "percentile_index p (Finite c99) = Some 297"
proof -
  have "length64 p = Finite 300" using round64_nat [of 300] assms by (simp add: length64_def)
  then show ?thesis
    by (simp add: percentile_index_def fmul64_def round64_c99_300 truncate_def)
qed

text \<open>
  C5. On a table of length \<open>n \<ge> 1\<close> the query at clipping 1.0 computes the index \<open>n\<close>,
  one past the last sample, and the read is out of bounds: the run panics. For every
  clipping \<open>c \<ge> 0\<close> whose product with \<open>n\<close>, as line 442 computes it in float64, is
  truncated to an index below \<open>n\<close>, the query returns the element at the floor of that
  product. A slice of float64 has fewer than \<open>2^53\<close> elements, so its length is a
  float64.
\<close>

theorem percentile_boundary:
  assumes "1 \<le> length p" and "length p < 2 ^ 53"
  shows "percentile_index p (Finite 1) = Some (int (length p)) \<and>
    percentile p (Finite 1) = Inl (IndexOutOfRange (int (length p)) (length p)) \<and>
    (\<forall>c r. 0 \<le> c \<and> fmul64 (Finite c) (length64 p) = Finite r \<and>
         truncate r < int (length p) \<longrightarrow>
       0 \<le> r \<and> percentile_index p (Finite c) = Some \<lfloor>r\<rfloor> \<and>
       percentile p (Finite c) = Inr (p ! nat \<lfloor>r\<rfloor>))"
proof -
  have one: "percentile_index p (Finite 1) = Some (int (length p))"
    by (rule percentile_index_one [OF assms(2)])
  then have out: "percentile p (Finite 1) = Inl (IndexOutOfRange (int (length p)) (length p))"
    by (simp add: percentile_def)
  have "0 \<le> r \<and> percentile_index p (Finite c) = Some \<lfloor>r\<rfloor> \<and>
       percentile p (Finite c) = Inr (p ! nat \<lfloor>r\<rfloor>)"
    if "0 \<le> c" and "fmul64 (Finite c) (length64 p) = Finite r"
      and "truncate r < int (length p)" for c r
    by (rule percentile_in_range [OF that(1) assms(2) that(2,3)])
  with one out show ?thesis by blast
qed

theorem percentile_boundary_witness:
  "1 \<le> length [Finite 1, Finite 2, Finite 3] \<and>
   length [Finite 1, Finite 2, Finite 3] < 2 ^ 53 \<and>
   percentile [Finite 1, Finite 2, Finite 3] (Finite 1) = Inl (IndexOutOfRange 3 3) \<and>
   (0::real) \<le> 1 / 2 \<and>
   fmul64 (Finite (1 / 2)) (length64 [Finite 1, Finite 2, Finite 3]) = Finite (3 / 2) \<and>
   truncate (3 / 2) < 3 \<and>
   percentile [Finite 1, Finite 2, Finite 3] (Finite (1 / 2)) = Inr (Finite 2)"
proof -
  have fl: "\<lfloor>(3::real) / 2\<rfloor> = 1" by linarith
  have l: "1 \<le> length [Finite 1, Finite 2, Finite 3]"
    "length [Finite 1, Finite 2, Finite 3] < 2 ^ 53" by simp_all
  have n: "length64 [Finite 1, Finite 2, Finite 3] = Finite 3"
    using length64_exact [OF l(2)] by simp
  have m: "fmul64 (Finite (1 / 2)) (length64 [Finite 1, Finite 2, Finite 3]) = Finite (3 / 2)"
    by (simp add: n fmul64_def round64_three_halves)
  have t: "truncate (3 / 2) < 3" by (simp add: truncate_def fl)
  from percentile_boundary [OF l]
  have one: "percentile [Finite 1, Finite 2, Finite 3] (Finite 1) =
      Inl (IndexOutOfRange (int (length [Finite 1, Finite 2, Finite 3 :: float64]))
        (length [Finite 1, Finite 2, Finite 3 :: float64]))"
    and rest: "\<And>c r. 0 \<le> c \<Longrightarrow>
      fmul64 (Finite c) (length64 [Finite 1, Finite 2, Finite 3]) = Finite r \<Longrightarrow>
      truncate r < int (length [Finite 1, Finite 2, Finite 3 :: float64]) \<Longrightarrow>
      percentile [Finite 1, Finite 2, Finite 3] (Finite c) =
        Inr ([Finite 1, Finite 2, Finite 3] ! nat \<lfloor>r\<rfloor>)"
    by blast+
  have "percentile [Finite 1, Finite 2, Finite 3] (Finite (1 / 2)) =
      Inr ([Finite 1, Finite 2, Finite 3] ! nat \<lfloor>(3::real) / 2\<rfloor>)"
    by (rule rest [OF _ m]) (use t in simp_all)
  then have half: "percentile [Finite 1, Finite 2, Finite 3] (Finite (1 / 2)) = Inr (Finite 2)"
    by (simp add: fl)
  from one have "percentile [Finite 1, Finite 2, Finite 3] (Finite 1) =
      Inl (IndexOutOfRange 3 3)" by simp
  with half m t show ?thesis by simp
qed

subsection \<open>The filling of the percentile table\<close>

lemma store_length: "store perc i v = Inr perc' \<Longrightarrow> length perc' = length perc"
  by (auto simp: store_def split: if_splits)

lemma fill_pixel_length:
  "fill_pixel normLum sz p perc = Inr perc' \<Longrightarrow> length perc' = length perc"
  by (auto simp: fill_pixel_def and_then_def Let_def split: prod.splits sum.splits
      dest!: store_length)

lemma fill_pixels_length:
  "fill_pixels normLum sz ps perc = Inr perc' \<Longrightarrow> length perc' = length perc"
proof (induction ps arbitrary: perc)
  case Nil
  then show ?case by simp
next
  case (Cons p ps)
  then show ?case
    by (auto simp: and_then_def split: sum.splits dest!: fill_pixel_length)
qed

lemma fill_table_length:
  "0 \<le> Size m \<Longrightarrow> fill_table normLum m tiles = Inr perc \<Longrightarrow>
     int (length perc) = 3 * Size m"
  by (auto simp: fill_table_def dest!: fill_pixels_length)

text \<open>
  C3. The table has three entries for each pixel, but the slot of a pixel is computed
  as \<open>x * y\<close>, so pixels share slots. On an image of two pixels, \<open>(0, 0)\<close> and
  \<open>(1, 0)\<close>, both write the slots 0, 2 and 4: after the fill the table holds the
  three channels of the pixel \<open>(1, 0)\<close> and three zeros, whatever the channels of
  the pixel \<open>(0, 0)\<close> are.
\<close>

theorem table_overwritten:
  "fill_table normLum (two_pixels c0 c1) [Rect 0 0 2 1] =
     Inr [fst (normLum 1 0), Finite 0, fst (snd (normLum 1 0)), Finite 0,
          snd (snd (normLum 1 0)), Finite 0]"
proof -
  have sz: "Size (two_pixels c0 c1) = 2"
    by (simp add: Size_def two_pixels_def Rect_def Dx_def Dy_def)
  obtain r0 g0 b0 where p0: "normLum 0 0 = (r0, g0, b0)" by (cases "normLum 0 0")
  obtain r1 g1 b1 where p1: "normLum 1 0 = (r1, g1, b1)" by (cases "normLum 1 0")
  have rep: "replicate 6 (Finite 0) =
      [Finite 0, Finite 0, Finite 0, Finite 0, Finite 0, Finite 0]"
    by (simp add: numeral_eq_Suc)
  have upd: "[a0, a1, a2, a3, a4, a5][0 := r0, 2 := g0, 4 := b0, 0 := r1, 2 := g1, 4 := b1] =
      [r1, a1, g1, a3, b1, a5]" for a0 a1 a2 a3 a4 a5 :: float64
    by (simp add: numeral_eq_Suc)
  show ?thesis
    by (simp add: fill_table_def sz tile_pixels_two fill_pixel_def p0 p1 store_def and_then_def)
      (simp only: rep upd)
qed

text \<open>
  Two tiles that share a slot leave in it the sample of the tile that runs last: on a
  column of two pixels the table depends on the order in which the two tiles run.
\<close>

lemma table_depends_on_tile_order:
  "fill_table normLum (column c0 c1) [Rect 0 0 1 1, Rect 0 1 1 2] =
     Inr [fst (normLum 0 1), Finite 0, fst (snd (normLum 0 1)), Finite 0,
          snd (snd (normLum 0 1)), Finite 0] \<and>
   fill_table normLum (column c0 c1) [Rect 0 1 1 2, Rect 0 0 1 1] =
     Inr [fst (normLum 0 0), Finite 0, fst (snd (normLum 0 0)), Finite 0,
          snd (snd (normLum 0 0)), Finite 0]"
proof -
  have sz: "Size (column c0 c1) = 2"
    by (simp add: Size_def column_def Rect_def Dx_def Dy_def)
  have px: "tile_pixels (Rect 0 1 1 2) = [(0, 1)]"
    by (simp add: tile_pixels_def Rect_def upto_rec1)
  obtain r0 g0 b0 where p0: "normLum 0 0 = (r0, g0, b0)" by (cases "normLum 0 0")
  obtain r1 g1 b1 where p1: "normLum 0 1 = (r1, g1, b1)" by (cases "normLum 0 1")
  have rep: "replicate 6 (Finite 0) =
      [Finite 0, Finite 0, Finite 0, Finite 0, Finite 0, Finite 0]"
    by (simp add: numeral_eq_Suc)
  have upd: "[a0, a1, a2, a3, a4, a5][0 := u, 2 := v, 4 := w, 0 := u', 2 := v', 4 := w'] =
      [u', a1, v', a3, w', a5]" for a0 a1 a2 a3 a4 a5 u v w u' v' w' :: float64
    by (simp add: numeral_eq_Suc)
  show ?thesis
    by (simp add: fill_table_def sz tile_pixels_one px fill_pixel_def p0 p1 store_def
        and_then_def)
      (simp only: rep upd)
qed

subsection \<open>The final clipping\<close>











subsection \<open>The reuse of the white point's raster\<close>

lemma frees_Some: "frees b = Some b' \<longleftrightarrow> b = ToneCompressed \<and> b' = White"
  by (cases b) auto

lemma no_read_after_free_append:
  "no_read_after_free (xs @ ys) \<longleftrightarrow>
     no_read_after_free xs \<and> no_read_after_free ys \<and>
     (\<forall>p. Write ToneCompressed p \<in> set xs \<longrightarrow> Read White p \<notin> set ys)"
proof (induction xs)
  case Nil
  show ?case by simp
next
  case (Cons e xs)
  show ?case
  proof (cases e)
    case (Read b p)
    with Cons show ?thesis by auto
  next
    case (Write b p)
    show ?thesis
    proof (cases "b = ToneCompressed")
      case True
      with Write Cons show ?thesis by (simp del: split_paired_All) blast
    next
      case False
      then have "frees b = None" by (cases b) simp_all
      with False Write Cons show ?thesis by simp
    qed
  qed
qed

lemma no_write_no_free:
  "(\<forall>p. Write ToneCompressed p \<notin> set xs) \<Longrightarrow> no_read_after_free xs"
proof (induction xs)
  case Nil
  show ?case by simp
next
  case (Cons e xs)
  then show ?case by (cases e) (auto split: option.splits simp: frees_Some)
qed

lemma no_read_after_free_split:
  "no_read_after_free (pre @ Write b p # post) \<Longrightarrow> frees b = Some b' \<Longrightarrow>
     Read b' p \<notin> set post"
  by (simp add: no_read_after_free_append)

lemma toneCompression_reads:
  "Read White q \<in> set (concat (map toneCompression_pixel ps)) \<longleftrightarrow> q \<in> set ps"
  by (induction ps) (auto simp: toneCompression_pixel_def)

lemma toneCompression_pixel_then:
  "no_read_after_free (toneCompression_pixel p @ tr) \<longleftrightarrow>
     Read White p \<notin> set tr \<and> no_read_after_free tr"
  by (simp add: toneCompression_pixel_def)

lemma toneCompression_pixels_safe:
  "distinct ps \<Longrightarrow> no_read_after_free (concat (map toneCompression_pixel ps))"
proof (induction ps)
  case Nil
  show ?case by simp
next
  case (Cons p ps)
  then have "Read White p \<notin> set (concat (map toneCompression_pixel ps))"
    unfolding toneCompression_reads by simp
  moreover have "no_read_after_free (concat (map toneCompression_pixel ps))"
    using Cons by simp
  ultimately show ?case by (simp add: toneCompression_pixel_then)
qed

lemma later_no_white:
  "Read White p \<notin> set (later_accesses b tn1 tn2 tn3)"
  by (auto simp: later_accesses_def detailLayer_accesses_def detailCombined_accesses_def
      normalize_accesses_def colorfullnessXsurround_accesses_def)

lemma earlier_no_write:
  "Write ToneCompressed p \<notin>
     set (luminance_accesses tlum @ normalizer_accesses b @ baseLayer_accesses b @ white_accesses b)"
  by (auto simp: luminance_accesses_def normalizer_accesses_def baseLayer_accesses_def
      white_accesses_def)

lemma later_no_write:
  "Write ToneCompressed p \<notin> set (later_accesses b tn1 tn2 tn3)"
  by (auto simp: later_accesses_def detailLayer_accesses_def detailCombined_accesses_def
      normalize_accesses_def colorfullnessXsurround_accesses_def)

lemma toneCompression_safe:
  assumes "distinct (concat (map tile_pixels tc))"
  shows "no_read_after_free (toneCompression_accesses w h tc)"
proof -
  have "no_read_after_free (map (Read White) (tile_pixels (Rect 0 0 w h)))"
    by (rule no_write_no_free) auto
  with toneCompression_pixels_safe [OF assms] show ?thesis
    by (auto simp: toneCompression_accesses_def no_read_after_free_append)
qed

text \<open>
  C6. When the tiles of the tone compression do not overlap, the stages that run
  after it (detail layer, detail combination, colour appearance, final normalization)
  never read the local white point, and in the whole run no access reads the white
  point of a pixel after the tone-compressed pixel has been written over it. No other
  raster has two names, so no other image is ever freed.
\<close>

theorem white_point_not_read_after_reuse:
  assumes "distinct (concat (map tile_pixels tc))"
  shows "(\<forall>p. Read White p \<notin> set (later_accesses b tn1 tn2 tn3)) \<and>
    no_read_after_free (Perform_accesses b tlum tc tn1 tn2 tn3) \<and>
    (\<forall>pre p post. Perform_accesses b tlum tc tn1 tn2 tn3 = pre @ Write ToneCompressed p # post
       \<longrightarrow> Read White p \<notin> set post)"
proof -
  let ?early = "luminance_accesses tlum @ normalizer_accesses b @ baseLayer_accesses b @
    white_accesses b"
  have split: "Perform_accesses b tlum tc tn1 tn2 tn3 =
      ?early @ toneCompression_accesses (Dx b) (Dy b) tc @ later_accesses b tn1 tn2 tn3"
    by (simp add: Perform_accesses_def)
  have early: "no_read_after_free ?early"
    by (rule no_write_no_free) (use earlier_no_write in blast)
  have later: "no_read_after_free (later_accesses b tn1 tn2 tn3)"
    by (rule no_write_no_free) (use later_no_write in blast)
  have tone: "no_read_after_free
      (toneCompression_accesses (Dx b) (Dy b) tc @ later_accesses b tn1 tn2 tn3)"
    using later toneCompression_safe [OF assms] later_no_white
    by (simp add: no_read_after_free_append [of "toneCompression_accesses (Dx b) (Dy b) tc"])
  have all: "no_read_after_free (Perform_accesses b tlum tc tn1 tn2 tn3)"
    unfolding split using early tone earlier_no_write
    by (simp only: no_read_after_free_append [of ?early]) blast
  have "Read White p \<notin> set post"
    if "Perform_accesses b tlum tc tn1 tn2 tn3 = pre @ Write ToneCompressed p # post"
    for pre p post
    using all no_read_after_free_split [of pre ToneCompressed p post White] that by simp
  with all later_no_white show ?thesis by blast
qed

theorem white_point_not_read_after_reuse_witness:
  "distinct (concat (map tile_pixels [Rect 0 0 1 1, Rect 1 0 2 1])) \<and>
   no_read_after_free (Perform_accesses (Rect 0 0 2 1) [Rect 0 0 2 1]
     [Rect 0 0 1 1, Rect 1 0 2 1] [Rect 0 0 2 1] [Rect 0 0 2 1] [Rect 0 0 2 1]) \<and>
   Read White (0, 0) \<in> set (Perform_accesses (Rect 0 0 2 1) [Rect 0 0 2 1]
     [Rect 0 0 1 1, Rect 1 0 2 1] [Rect 0 0 2 1] [Rect 0 0 2 1] [Rect 0 0 2 1]) \<and>
   Write ToneCompressed (0, 0) \<in> set (Perform_accesses (Rect 0 0 2 1) [Rect 0 0 2 1]
     [Rect 0 0 1 1, Rect 1 0 2 1] [Rect 0 0 2 1] [Rect 0 0 2 1] [Rect 0 0 2 1])"
proof -
  have d: "distinct (concat (map tile_pixels [Rect 0 0 1 1, Rect 1 0 2 1]))"
    by (simp add: tile_pixels_one tile_pixels_second)
  have "Read White (0, 0) \<in> set (toneCompression_accesses 2 1 [Rect 0 0 1 1, Rect 1 0 2 1])"
    "Write ToneCompressed (0, 0) \<in> set (toneCompression_accesses 2 1 [Rect 0 0 1 1, Rect 1 0 2 1])"
    by (simp_all add: toneCompression_accesses_def tile_pixels_one tile_pixels_second
        tile_pixels_two toneCompression_pixel_def)
  then have "Read White (0, 0) \<in> set (Perform_accesses (Rect 0 0 2 1) [Rect 0 0 2 1]
     [Rect 0 0 1 1, Rect 1 0 2 1] [Rect 0 0 2 1] [Rect 0 0 2 1] [Rect 0 0 2 1])"
    "Write ToneCompressed (0, 0) \<in> set (Perform_accesses (Rect 0 0 2 1) [Rect 0 0 2 1]
     [Rect 0 0 1 1, Rect 1 0 2 1] [Rect 0 0 2 1] [Rect 0 0 2 1] [Rect 0 0 2 1])"
    by (simp_all add: Perform_accesses_def Dx_def Dy_def Rect_def)
  with d white_point_not_read_after_reuse [OF d] show ?thesis by blast
qed

end
